theory Spec2Isabelle
  imports Complex_Main
begin

section \<open>Exact rational arithmetic primitive\<close>

text \<open>
  The router is written against the \<^verbatim>\<open>Fraction\<close> class of the external package
  \<^verbatim>\<open>@uniswap/sdk-core\<close>: a pair of arbitrary-precision integers. A
  \<^verbatim>\<open>CurrencyAmount\<close> extends it by a currency, of which the router only reads
  \<^verbatim>\<open>isNative\<close>; a \<^verbatim>\<open>Percent\<close> is a fraction too. A currency amount is built with
  a non-zero denominator.
\<close>

record fraction =
  numerator :: int
  denominator :: int

record currency =
  isNative :: bool

record currencyAmount = fraction +
  currency :: currency

datatype error = ETHER_IN_OUT | TTL | EXACT_OUT_FOT | InvalidAddress | DivisionByZero

definition and_then :: "error + 'a \<Rightarrow> ('a \<Rightarrow> error + 'b) \<Rightarrow> error + 'b" where
  "and_then r f = (case r of Inl e \<Rightarrow> Inl e | Inr x \<Rightarrow> f x)"

text \<open>
  Modelled from the spec: the class \<^verbatim>\<open>Fraction\<close> is not part of the repository. The
  spec describes it as "arbitrary-precision numerator/denominator pairs with add,
  multiply, divide, invert, and integer-truncating quotient". An integer or a decimal
  string given where a fraction is expected stands for that integer over 1.
\<close>

definition fraction_of_int :: "int \<Rightarrow> fraction" where
  "fraction_of_int n = \<lparr>numerator = n, denominator = 1\<rparr>"

definition fraction_add :: "'a fraction_scheme \<Rightarrow> 'b fraction_scheme \<Rightarrow> fraction" where
  "fraction_add x y =
     \<lparr>numerator = numerator x * denominator y + numerator y * denominator x,
      denominator = denominator x * denominator y\<rparr>"

definition fraction_multiply :: "'a fraction_scheme \<Rightarrow> 'b fraction_scheme \<Rightarrow> fraction" where
  "fraction_multiply x y =
     \<lparr>numerator = numerator x * numerator y, denominator = denominator x * denominator y\<rparr>"

definition fraction_divide :: "'a fraction_scheme \<Rightarrow> 'b fraction_scheme \<Rightarrow> fraction" where
  "fraction_divide x y =
     \<lparr>numerator = numerator x * denominator y, denominator = denominator x * numerator y\<rparr>"

definition fraction_invert :: "'a fraction_scheme \<Rightarrow> fraction" where
  "fraction_invert x = \<lparr>numerator = denominator x, denominator = numerator x\<rparr>"

definition fraction_equalTo :: "'a fraction_scheme \<Rightarrow> 'b fraction_scheme \<Rightarrow> bool" where
  "fraction_equalTo x y \<longleftrightarrow> numerator x * denominator y = numerator y * denominator x"

text \<open>
  Modelled from the spec: big-integer division, "truncating integer division result". It
  rounds towards zero and raises on a zero divisor.
\<close>

definition truncating_divide :: "int \<Rightarrow> int \<Rightarrow> error + int" where
  "truncating_divide a b =
     (if b = 0 then Inl DivisionByZero else Inr (sgn a * sgn b * (\<bar>a\<bar> div \<bar>b\<bar>)))"

definition fraction_quotient :: "'a fraction_scheme \<Rightarrow> error + int" where
  "fraction_quotient x = truncating_divide (numerator x) (denominator x)"

text \<open>The rational number a fraction denotes, and truncation of a rational towards zero.\<close>

definition fraction_value :: "'a fraction_scheme \<Rightarrow> rat" where
  "fraction_value x = of_int (numerator x) / of_int (denominator x)"

definition rat_truncate :: "rat \<Rightarrow> int" where
  "rat_truncate q = (if 0 \<le> q then \<lfloor>q\<rfloor> else \<lceil>q\<rceil>)"

section \<open>Rendering integers\<close>

definition digit_char :: "int \<Rightarrow> char" where
  "digit_char d = ''0123456789abcdef'' ! nat d"

text \<open>The digits of a natural number \<open>n\<close> in a radix from 2 to 16, most significant first.\<close>

function digits :: "int \<Rightarrow> int \<Rightarrow> string" where
  "digits radix n =
     (if radix < 2 \<or> n < radix then [digit_char n]
      else digits radix (n div radix) @ [digit_char (n mod radix)])"
  by pat_completeness auto
termination
  by (relation "measure (\<lambda>(radix, n). nat n)") (auto simp: int_div_less_self)

declare digits.simps [simp del]

text \<open>\<^verbatim>\<open>n.toString(radix)\<close> for an integer \<open>n\<close>: a minus sign, then the digits.\<close>

definition toString :: "int \<Rightarrow> int \<Rightarrow> string" where
  "toString radix n =
     (if n < 0 then CHR ''-'' # digits radix (- n) else digits radix n)"

definition toHex :: "'a fraction_scheme \<Rightarrow> error + string" where
  "toHex currencyAmount =
     and_then (fraction_quotient currencyAmount) (\<lambda>q. Inr (''0x'' @ toString 16 q))"

definition ZERO_HEX :: string where
  "ZERO_HEX = ''0x0''"

section \<open>The quote primitive\<close>

definition quote :: "'a fraction_scheme \<Rightarrow> 'b fraction_scheme \<Rightarrow> 'c fraction_scheme \<Rightarrow> fraction" where
  "quote amountA reserveA reserveB = fraction_divide (fraction_multiply amountA reserveA) reserveB"

section \<open>Data model of the router\<close>

record token =
  address :: string

text \<open>
  \<^verbatim>\<open>Pair\<close> and \<^verbatim>\<open>Trade\<close> come from the entities module, which the router only
  reads: the two tokens and reserves of a pair; the trade type, the two amounts, the
  route's path and the two slippage accessors of a trade. The accessors are taken as
  given functions of the slippage tolerance.
\<close>

record pair =
  token0 :: token
  token1 :: token
  reserve0 :: currencyAmount
  reserve1 :: currencyAmount

datatype tradeType = EXACT_INPUT | EXACT_OUTPUT

record trade =
  tradeType :: tradeType
  inputAmount :: currencyAmount
  outputAmount :: currencyAmount
  maximumAmountIn :: "fraction \<Rightarrow> currencyAmount"
  minimumAmountOut :: "fraction \<Rightarrow> currencyAmount"
  path :: "token list"

text \<open>
  \<^verbatim>\<open>TradeOptions | TradeOptionsDeadline\<close>: the options carry either \<^verbatim>\<open>ttl\<close> or
  \<^verbatim>\<open>deadline\<close>, both whole numbers of seconds. \<^verbatim>\<open>feeOnTransfer\<close> is optional.
\<close>

datatype expiry = Ttl int | Deadline int

record tradeOptions =
  allowedSlippage :: fraction
  expiry :: expiry
  recipient :: string
  feeOnTransfer :: "bool option"

datatype arg = Str string | StrList "string list"

record swapParameters =
  methodName :: string
  args :: "arg list"
  callValue :: string

text \<open>\<^verbatim>\<open>invariant(!('ttl' in options) || options.ttl > 0, 'TTL')\<close>\<close>

definition ttl_invariant :: "expiry \<Rightarrow> bool" where
  "ttl_invariant e = (case e of Ttl t \<Rightarrow> 0 < t | Deadline d \<Rightarrow> True)"

text \<open>
  The deadline argument. \<open>now\<close> is \<^verbatim>\<open>new Date().getTime()\<close>, the clock in
  milliseconds, read once.
\<close>

definition deadline_hex :: "int \<Rightarrow> expiry \<Rightarrow> string" where
  "deadline_hex now e =
     (case e of
        Ttl t \<Rightarrow> ''0x'' @ toString 16 (now div 1000 + t)
      | Deadline d \<Rightarrow> ''0x'' @ toString 16 d)"

definition useFeeOnTransfer :: "tradeOptions \<Rightarrow> bool" where
  "useFeeOnTransfer options = (case feeOnTransfer options of None \<Rightarrow> False | Some b \<Rightarrow> b)"

section \<open>Swap encoding\<close>

text \<open>
  \<open>validateAndParseAddress\<close> is the address check of the external package, taken as a
  parameter: \<open>None\<close> when it raises, the normalised address otherwise.
\<close>

definition swapCallParameters ::
  "(string \<Rightarrow> string option) \<Rightarrow> int \<Rightarrow> trade \<Rightarrow> tradeOptions \<Rightarrow> error + swapParameters" where
  "swapCallParameters validateAndParseAddress now trade options =
     (let etherIn = isNative (currency (inputAmount trade));
          etherOut = isNative (currency (outputAmount trade))
      in if etherIn \<and> etherOut then Inl ETHER_IN_OUT
         else if \<not> ttl_invariant (expiry options) then Inl TTL
         else case validateAndParseAddress (recipient options) of
           None \<Rightarrow> Inl InvalidAddress
         | Some to \<Rightarrow>
             and_then (toHex (maximumAmountIn trade (allowedSlippage options))) (\<lambda>amountIn.
             and_then (toHex (minimumAmountOut trade (allowedSlippage options))) (\<lambda>amountOut.
             let path = map address (path trade);
                 deadline = deadline_hex now (expiry options)
             in case tradeType trade of
                  EXACT_INPUT \<Rightarrow>
                    if etherIn then
                      Inr \<lparr>methodName =
                             (if useFeeOnTransfer options
                              then ''swapExactETHForTokensSupportingFeeOnTransferTokens''
                              else ''swapExactETHForTokens''),
                           args = [Str amountOut, StrList path, Str to, Str deadline],
                           callValue = amountIn\<rparr>
                    else if etherOut then
                      Inr \<lparr>methodName =
                             (if useFeeOnTransfer options
                              then ''swapExactTokensForETHSupportingFeeOnTransferTokens''
                              else ''swapExactTokensForETH''),
                           args = [Str amountIn, Str amountOut, StrList path, Str to, Str deadline],
                           callValue = ZERO_HEX\<rparr>
                    else
                      Inr \<lparr>methodName =
                             (if useFeeOnTransfer options
                              then ''swapExactTokensForTokensSupportingFeeOnTransferTokens''
                              else ''swapExactTokensForTokens''),
                           args = [Str amountIn, Str amountOut, StrList path, Str to, Str deadline],
                           callValue = ZERO_HEX\<rparr>
                | EXACT_OUTPUT \<Rightarrow>
                    if useFeeOnTransfer options then Inl EXACT_OUT_FOT
                    else if etherIn then
                      Inr \<lparr>methodName = ''swapETHForExactTokens'',
                           args = [Str amountOut, StrList path, Str to, Str deadline],
                           callValue = amountIn\<rparr>
                    else if etherOut then
                      Inr \<lparr>methodName = ''swapTokensForExactETH'',
                           args = [Str amountOut, Str amountIn, StrList path, Str to, Str deadline],
                           callValue = ZERO_HEX\<rparr>
                    else
                      Inr \<lparr>methodName = ''swapTokensForExactTokens'',
                           args = [Str amountOut, Str amountIn, StrList path, Str to, Str deadline],
                           callValue = ZERO_HEX\<rparr>)))"

section \<open>Conversion of a decimal string to a double\<close>

text \<open>
  \<^verbatim>\<open>Number(s)\<close> of the decimal string of an integer is the double nearest to the
  integer: the integer itself up to 53 significant bits, beyond that rounded to 53
  significant bits with ties to the even significand, and an infinity from
  \<open>2 ^ 1024\<close> on. The doubles met here are integers or infinities.
\<close>

datatype jsnumber = NegInfinity | Finite int | PosInfinity

function bit_length :: "int \<Rightarrow> nat" where
  "bit_length n = (if n \<le> 0 then 0 else Suc (bit_length (n div 2)))"
  by pat_completeness auto
termination
  by (relation "measure nat") auto

declare bit_length.simps [simp del]

definition round_to_53_bits :: "int \<Rightarrow> int" where
  "round_to_53_bits n =
     (let e = bit_length n
      in if e \<le> 53 then n
         else let unit = 2 ^ (e - 53);
                  q = n div unit;
                  r = n mod unit
              in (if unit < 2 * r \<or> (2 * r = unit \<and> odd q) then q + 1 else q) * unit)"

definition Number :: "int \<Rightarrow> jsnumber" where
  "Number n =
     (let m = round_to_53_bits \<bar>n\<bar>
      in if 2 ^ 1024 \<le> m then (if n < 0 then NegInfinity else PosInfinity)
         else Finite (sgn n * m))"

fun number_less :: "jsnumber \<Rightarrow> jsnumber \<Rightarrow> bool" where
  "number_less (Finite a) (Finite b) = (a < b)"
| "number_less NegInfinity (Finite b) = True"
| "number_less NegInfinity PosInfinity = True"
| "number_less (Finite a) PosInfinity = True"
| "number_less _ _ = False"

definition number_less_eq :: "jsnumber \<Rightarrow> jsnumber \<Rightarrow> bool" where
  "number_less_eq a b \<longleftrightarrow> number_less a b \<or> a = b"

section \<open>Add-liquidity encoding\<close>

text \<open>
  The source keeps the four amounts as the decimal strings of integers, reads them
  back with \<^verbatim>\<open>Number\<close> (for the comparisons) and as big integers (for the
  arithmetic), and puts the strings into the result. The model keeps the integers and
  renders them where they enter the result.
\<close>

record liquidityAmounts =
  amountADesired :: int
  amountBDesired :: int
  amountAMin :: int
  amountBMin :: int

text \<open>\<^verbatim>\<open>new Fraction(ONE).add(options.allowedSlippage).invert()\<close>\<close>

definition slippageAdjusted :: "tradeOptions \<Rightarrow> fraction" where
  "slippageAdjusted options =
     fraction_invert (fraction_add (fraction_of_int 1) (allowedSlippage options))"

text \<open>\<^verbatim>\<open>adjusted.multiply(desired).add(1).quotient\<close>\<close>

definition biased_minimum :: "fraction \<Rightarrow> int \<Rightarrow> error + int" where
  "biased_minimum adjusted desired =
     fraction_quotient
       (fraction_add (fraction_multiply adjusted (fraction_of_int desired)) (fraction_of_int 1))"

text \<open>The block guarded by \<^verbatim>\<open>!(pair.reserve0.equalTo(0) && pair.reserve1.equalTo(0))\<close>.\<close>

definition reconcile ::
  "fraction \<Rightarrow> pair \<Rightarrow> currencyAmount \<Rightarrow> currencyAmount \<Rightarrow> liquidityAmounts
     \<Rightarrow> error + liquidityAmounts" where
  "reconcile adjusted pair amount0 amount1 s =
     (if \<not> (fraction_equalTo (reserve0 pair) (fraction_of_int 0) \<and>
             fraction_equalTo (reserve1 pair) (fraction_of_int 0)) then
        and_then (fraction_quotient (quote amount0 (reserve1 pair) (reserve0 pair)))
          (\<lambda>amountBOptimal.
             if number_less_eq (Number amountBOptimal) (Number (amountBDesired s)) then
               if number_less (Number amountBOptimal) (Number (amountBMin s)) then
                 and_then (biased_minimum adjusted amountBOptimal)
                   (\<lambda>m. Inr (s\<lparr>amountBDesired := amountBOptimal, amountBMin := m\<rparr>))
               else Inr s
             else
               and_then (fraction_quotient (quote amount1 (reserve0 pair) (reserve1 pair)))
                 (\<lambda>amountAOptimal.
                    if number_less_eq (Number amountAOptimal) (Number (amountADesired s)) then
                      if number_less (Number amountAOptimal) (Number (amountAMin s)) then
                        and_then (biased_minimum adjusted amountAOptimal)
                          (\<lambda>m. Inr (s\<lparr>amountADesired := amountAOptimal, amountAMin := m\<rparr>))
                      else Inr s
                    else Inr s))
      else Inr s)"

definition initial_amounts ::
  "fraction \<Rightarrow> currencyAmount \<Rightarrow> currencyAmount \<Rightarrow> error + liquidityAmounts" where
  "initial_amounts adjusted amount0 amount1 =
     and_then (fraction_quotient amount0) (\<lambda>a.
     and_then (fraction_quotient amount1) (\<lambda>b.
     and_then (biased_minimum adjusted a) (\<lambda>aMin.
     and_then (biased_minimum adjusted b) (\<lambda>bMin.
       Inr \<lparr>amountADesired = a, amountBDesired = b, amountAMin = aMin, amountBMin = bMin\<rparr>))))"

text \<open>The method selection that ends \<^verbatim>\<open>addCallParameters\<close>.\<close>

definition add_liquidity_call ::
  "bool \<Rightarrow> bool \<Rightarrow> pair \<Rightarrow> string \<Rightarrow> string \<Rightarrow> liquidityAmounts \<Rightarrow> swapParameters" where
  "add_liquidity_call ether0 ether1 pair to deadline s =
     (if ether0 then
        \<lparr>methodName = ''addLiquidityETH'',
         args = [Str (address (token1 pair)),
                 Str (toString 10 (amountBDesired s)),
                 Str (toString 10 (amountBMin s)),
                 Str (toString 10 (amountAMin s)),
                 Str to, Str deadline],
         callValue = toString 10 (amountADesired s)\<rparr>
      else if ether1 then
        \<lparr>methodName = ''addLiquidityETH'',
         args = [Str (address (token0 pair)),
                 Str (toString 10 (amountADesired s)),
                 Str (toString 10 (amountAMin s)),
                 Str (toString 10 (amountBMin s)),
                 Str to, Str deadline],
         callValue = toString 10 (amountBDesired s)\<rparr>
      else
        \<lparr>methodName = ''addLiquidity'',
         args = [Str (address (token0 pair)),
                 Str (address (token1 pair)),
                 Str (toString 10 (amountADesired s)),
                 Str (toString 10 (amountBDesired s)),
                 Str (toString 10 (amountAMin s)),
                 Str (toString 10 (amountBMin s)),
                 Str to, Str deadline],
         callValue = ZERO_HEX\<rparr>)"

definition addCallParameters ::
  "(string \<Rightarrow> string option) \<Rightarrow> int \<Rightarrow> pair \<Rightarrow> currencyAmount \<Rightarrow> currencyAmount
     \<Rightarrow> tradeOptions \<Rightarrow> error + swapParameters" where
  "addCallParameters validateAndParseAddress now pair amount0 amount1 options =
     (let ether0 = isNative (currency amount0);
          ether1 = isNative (currency amount1)
      in if ether0 \<and> ether1 then Inl ETHER_IN_OUT
         else if \<not> ttl_invariant (expiry options) then Inl TTL
         else case validateAndParseAddress (recipient options) of
           None \<Rightarrow> Inl InvalidAddress
         | Some to \<Rightarrow>
             and_then (initial_amounts (slippageAdjusted options) amount0 amount1) (\<lambda>s0.
             and_then (reconcile (slippageAdjusted options) pair amount0 amount1 s0) (\<lambda>s.
               Inr (add_liquidity_call ether0 ether1 pair to
                      (deadline_hex now (expiry options)) s))))"

section \<open>Remove-liquidity encoding\<close>

text \<open>
  \<open>totalSupply\<close> and \<open>balance\<close> are the integers the two decimal strings denote,
  \<open>decreasePercent\<close> is a whole number.
\<close>

definition liquidity :: "int \<Rightarrow> int \<Rightarrow> fraction" where
  "liquidity balance decreasePercent =
     fraction_divide
       (fraction_multiply (fraction_of_int balance) (fraction_of_int decreasePercent))
       (fraction_of_int 100)"

definition removePercent :: "int \<Rightarrow> int \<Rightarrow> int \<Rightarrow> fraction" where
  "removePercent totalSupply balance decreasePercent =
     fraction_divide (liquidity balance decreasePercent) (fraction_of_int totalSupply)"

text \<open>The method selection that ends \<^verbatim>\<open>removeCallParameters\<close>.\<close>

definition remove_liquidity_call ::
  "bool \<Rightarrow> bool \<Rightarrow> pair \<Rightarrow> string \<Rightarrow> string \<Rightarrow> int \<Rightarrow> int \<Rightarrow> int \<Rightarrow> swapParameters" where
  "remove_liquidity_call ether0 ether1 pair to deadline liq aMin bMin =
     (if ether0 then
        \<lparr>methodName = ''removeLiquidityETH'',
         args = [Str (address (token1 pair)),
                 Str (toString 10 liq),
                 Str (toString 10 bMin),
                 Str (toString 10 aMin),
                 Str to, Str deadline],
         callValue = ZERO_HEX\<rparr>
      else if ether1 then
        \<lparr>methodName = ''removeLiquidityETH'',
         args = [Str (address (token0 pair)),
                 Str (toString 10 liq),
                 Str (toString 10 aMin),
                 Str (toString 10 bMin),
                 Str to, Str deadline],
         callValue = ZERO_HEX\<rparr>
      else
        \<lparr>methodName = ''removeLiquidity'',
         args = [Str (address (token0 pair)),
                 Str (address (token1 pair)),
                 Str (toString 10 liq),
                 Str (toString 10 aMin),
                 Str (toString 10 bMin),
                 Str to, Str deadline],
         callValue = ZERO_HEX\<rparr>)"

definition removeCallParameters ::
  "(string \<Rightarrow> string option) \<Rightarrow> int \<Rightarrow> pair \<Rightarrow> currency \<Rightarrow> currency \<Rightarrow> int \<Rightarrow> int \<Rightarrow> int
     \<Rightarrow> tradeOptions \<Rightarrow> error + swapParameters" where
  "removeCallParameters validateAndParseAddress now pair tokenA tokenB totalSupply balance
       decreasePercent options =
     (let ether0 = isNative tokenA;
          ether1 = isNative tokenB
      in if ether0 \<and> ether1 then Inl ETHER_IN_OUT
         else if \<not> ttl_invariant (expiry options) then Inl TTL
         else case validateAndParseAddress (recipient options) of
           None \<Rightarrow> Inl InvalidAddress
         | Some to \<Rightarrow>
             and_then (fraction_quotient
                 (fraction_multiply
                    (fraction_multiply (reserve0 pair)
                       (removePercent totalSupply balance decreasePercent))
                    (slippageAdjusted options))) (\<lambda>aMin.
             and_then (fraction_quotient
                 (fraction_multiply
                    (fraction_multiply (reserve1 pair)
                       (removePercent totalSupply balance decreasePercent))
                    (slippageAdjusted options))) (\<lambda>bMin.
             and_then (fraction_quotient (liquidity balance decreasePercent)) (\<lambda>liq.
               Inr (remove_liquidity_call ether0 ether1 pair to
                      (deadline_hex now (expiry options)) liq aMin bMin)))))"

section \<open>The specification's reading of the comparisons and of the dispatch\<close>

text \<open>
  The reconciliation as the specification words it: the same steps, with the amounts
  compared as integers.
\<close>

definition reconcile_exact ::
  "fraction \<Rightarrow> pair \<Rightarrow> currencyAmount \<Rightarrow> currencyAmount \<Rightarrow> liquidityAmounts
     \<Rightarrow> error + liquidityAmounts" where
  "reconcile_exact adjusted pair amount0 amount1 s =
     (if \<not> (fraction_equalTo (reserve0 pair) (fraction_of_int 0) \<and>
             fraction_equalTo (reserve1 pair) (fraction_of_int 0)) then
        and_then (fraction_quotient (quote amount0 (reserve1 pair) (reserve0 pair)))
          (\<lambda>amountBOptimal.
             if amountBOptimal \<le> amountBDesired s then
               if amountBOptimal < amountBMin s then
                 and_then (biased_minimum adjusted amountBOptimal)
                   (\<lambda>m. Inr (s\<lparr>amountBDesired := amountBOptimal, amountBMin := m\<rparr>))
               else Inr s
             else
               and_then (fraction_quotient (quote amount1 (reserve0 pair) (reserve1 pair)))
                 (\<lambda>amountAOptimal.
                    if amountAOptimal \<le> amountADesired s then
                      if amountAOptimal < amountAMin s then
                        and_then (biased_minimum adjusted amountAOptimal)
                          (\<lambda>m. Inr (s\<lparr>amountADesired := amountAOptimal, amountAMin := m\<rparr>))
                      else Inr s
                    else Inr s))
      else Inr s)"

text \<open>
  The decision table of the specification, row by row. A row names the method, the
  order of the arguments and what the call value is.
\<close>

datatype slot = AmountIn | AmountOut | Path | To | DeadlineArg

datatype valueSlot = ValueAmountIn | ValueZero

fun swap_table :: "tradeType \<Rightarrow> bool \<Rightarrow> bool \<Rightarrow> bool \<Rightarrow> (string \<times> slot list \<times> valueSlot) option" where
  "swap_table EXACT_INPUT True False fot =
     Some ((if fot then ''swapExactETHForTokensSupportingFeeOnTransferTokens''
            else ''swapExactETHForTokens''),
           [AmountOut, Path, To, DeadlineArg], ValueAmountIn)"
| "swap_table EXACT_INPUT False True fot =
     Some ((if fot then ''swapExactTokensForETHSupportingFeeOnTransferTokens''
            else ''swapExactTokensForETH''),
           [AmountIn, AmountOut, Path, To, DeadlineArg], ValueZero)"
| "swap_table EXACT_INPUT False False fot =
     Some ((if fot then ''swapExactTokensForTokensSupportingFeeOnTransferTokens''
            else ''swapExactTokensForTokens''),
           [AmountIn, AmountOut, Path, To, DeadlineArg], ValueZero)"
| "swap_table EXACT_OUTPUT True False False =
     Some (''swapETHForExactTokens'', [AmountOut, Path, To, DeadlineArg], ValueAmountIn)"
| "swap_table EXACT_OUTPUT False True False =
     Some (''swapTokensForExactETH'', [AmountOut, AmountIn, Path, To, DeadlineArg], ValueZero)"
| "swap_table EXACT_OUTPUT False False False =
     Some (''swapTokensForExactTokens'', [AmountOut, AmountIn, Path, To, DeadlineArg], ValueZero)"
| "swap_table _ _ _ _ = None"

fun fill_slot :: "string \<Rightarrow> string \<Rightarrow> string list \<Rightarrow> string \<Rightarrow> string \<Rightarrow> slot \<Rightarrow> arg" where
  "fill_slot amountIn amountOut addresses to deadline AmountIn = Str amountIn"
| "fill_slot amountIn amountOut addresses to deadline AmountOut = Str amountOut"
| "fill_slot amountIn amountOut addresses to deadline Path = StrList addresses"
| "fill_slot amountIn amountOut addresses to deadline To = Str to"
| "fill_slot amountIn amountOut addresses to deadline DeadlineArg = Str deadline"

fun fill_value :: "string \<Rightarrow> valueSlot \<Rightarrow> string" where
  "fill_value amountIn ValueAmountIn = amountIn"
| "fill_value amountIn ValueZero = ''0x0''"

section \<open>Sample inputs\<close>

definition token_amount :: "int \<Rightarrow> currencyAmount" where
  "token_amount n = \<lparr>numerator = n, denominator = 1, currency = \<lparr>isNative = False\<rparr>\<rparr>"

definition native_amount :: "int \<Rightarrow> currencyAmount" where
  "native_amount n = \<lparr>numerator = n, denominator = 1, currency = \<lparr>isNative = True\<rparr>\<rparr>"

definition sample_pair :: "int \<Rightarrow> int \<Rightarrow> pair" where
  "sample_pair r0 r1 =
     \<lparr>token0 = \<lparr>address = ''0xA0''\<rparr>, token1 = \<lparr>address = ''0xB1''\<rparr>,
      reserve0 = token_amount r0, reserve1 = token_amount r1\<rparr>"

definition sample_options :: "int \<Rightarrow> int \<Rightarrow> tradeOptions" where
  "sample_options n d =
     \<lparr>allowedSlippage = \<lparr>numerator = n, denominator = d\<rparr>, expiry = Deadline 255,
      recipient = ''0xC2'', feeOnTransfer = None\<rparr>"

definition sample_trade :: "tradeType \<Rightarrow> bool \<Rightarrow> bool \<Rightarrow> trade" where
  "sample_trade t etherIn etherOut =
     \<lparr>tradeType = t,
      inputAmount = (if etherIn then native_amount 1000 else token_amount 1000),
      outputAmount = (if etherOut then native_amount 2000 else token_amount 2000),
      maximumAmountIn = (\<lambda>slippage. if etherIn then native_amount 1010 else token_amount 1010),
      minimumAmountOut = (\<lambda>slippage. if etherOut then native_amount 1980 else token_amount 1980),
      path = [\<lparr>address = ''0xA0''\<rparr>, \<lparr>address = ''0xB1''\<rparr>]\<rparr>"

section \<open>Facts about the arithmetic primitive\<close>

lemma rat_truncate_divide:
  assumes "b \<noteq> 0"
  shows "rat_truncate (of_int a / of_int b) = sgn a * sgn b * (\<bar>a\<bar> div \<bar>b\<bar>)"
proof -
  have fl: "\<lfloor>(of_int x :: rat) / of_int y\<rfloor> = x div y" for x y :: int
    by (simp add: floor_divide_of_int_eq)
  have ce: "\<lceil>(of_int x :: rat) / of_int y\<rceil> = - ((- x) div y)" for x y :: int
  proof -
    have "\<lceil>(of_int x :: rat) / of_int y\<rceil> = - \<lfloor>(of_int (- x) :: rat) / of_int y\<rfloor>"
      by (simp add: ceiling_def)
    then show ?thesis by (simp only: fl)
  qed
  consider "a = 0" | "0 < a" "0 < b" | "a < 0" "b < 0" | "0 < a" "b < 0" | "a < 0" "0 < b"
    using assms by linarith
  then show ?thesis
  proof cases
    case 1
    then show ?thesis by (simp add: rat_truncate_def)
  next
    case 2
    then have "(0::rat) \<le> of_int a / of_int b" by simp
    with 2 show ?thesis by (simp add: rat_truncate_def fl)
  next
    case 3
    then have "(0::rat) \<le> of_int a / of_int b" by (simp add: divide_nonpos_neg)
    with 3 show ?thesis by (simp add: rat_truncate_def fl)
  next
    case 4
    then have "(of_int a :: rat) / of_int b < 0" by (simp add: divide_pos_neg)
    with 4 show ?thesis by (simp add: rat_truncate_def ce div_minus_right)
  next
    case 5
    then have "(of_int a :: rat) / of_int b < 0" by (simp add: divide_neg_pos)
    with 5 show ?thesis by (simp add: rat_truncate_def ce)
  qed
qed

lemma fraction_quotient_value:
  "denominator x \<noteq> 0 \<Longrightarrow> fraction_quotient x = Inr (rat_truncate (fraction_value x))"
  by (simp add: fraction_quotient_def truncating_divide_def fraction_value_def rat_truncate_divide)

lemma fraction_quotient_Inr:
  "fraction_quotient x = Inr q \<Longrightarrow> denominator x \<noteq> 0 \<and> q = rat_truncate (fraction_value x)"
  using fraction_quotient_value [of x]
  by (cases "denominator x = 0") (auto simp: fraction_quotient_def truncating_divide_def)

lemma rat_truncate_nonneg: "0 \<le> q \<Longrightarrow> rat_truncate q = \<lfloor>q\<rfloor>"
  by (simp add: rat_truncate_def)

lemma fraction_quotient_floor:
  assumes "denominator x \<noteq> 0" and "0 \<le> fraction_value x"
  shows "fraction_quotient x = Inr \<lfloor>fraction_value x\<rfloor>"
  using fraction_quotient_value [OF assms(1)] assms(2) by (simp add: rat_truncate_nonneg)

lemma fraction_value_of_int: "fraction_value (fraction_of_int n) = of_int n"
  by (simp add: fraction_value_def fraction_of_int_def)

lemma fraction_value_multiply:
  "fraction_value (fraction_multiply x y) = fraction_value x * fraction_value y"
  by (simp add: fraction_value_def fraction_multiply_def)

lemma fraction_value_divide:
  "fraction_value (fraction_divide x y) = fraction_value x / fraction_value y"
  by (simp add: fraction_value_def fraction_divide_def)

lemma fraction_value_add:
  "denominator x \<noteq> 0 \<Longrightarrow> denominator y \<noteq> 0 \<Longrightarrow>
   fraction_value (fraction_add x y) = fraction_value x + fraction_value y"
  by (simp add: fraction_value_def fraction_add_def field_simps)

lemma fraction_value_nonneg:
  "0 \<le> numerator x \<Longrightarrow> 0 < denominator x \<Longrightarrow> 0 \<le> fraction_value x"
  by (simp add: fraction_value_def)

lemma int_div_less_iff:
  fixes a b c :: int
  assumes "0 < b"
  shows "a div b < c \<longleftrightarrow> a < c * b"
proof -
  have "a div b = \<lfloor>(of_int a :: rat) / of_int b\<rfloor>"
    by (simp add: floor_divide_of_int_eq)
  also have "\<dots> < c \<longleftrightarrow> (of_int a :: rat) / of_int b < of_int c"
    by (rule floor_less_iff)
  also have "\<dots> \<longleftrightarrow> (of_int a :: rat) < of_int (c * b)"
    using assms by (simp add: pos_divide_less_eq)
  also have "\<dots> \<longleftrightarrow> a < c * b"
    by (rule of_int_less_iff)
  finally show ?thesis .
qed

section \<open>The quote primitive: what it computes\<close>

lemma quote_value_eq:
  "fraction_value (quote amountA reserveA reserveB)
     = fraction_value amountA * fraction_value reserveA / fraction_value reserveB"
  by (simp add: quote_def fraction_divide_def fraction_multiply_def fraction_value_def)

text \<open>
  C1, as the specification states it, fails: \<open>quote amountA reserveA reserveB\<close> does
  not multiply by \<open>reserveB\<close> and divide by \<open>reserveA\<close>. At \<open>(1, 2, 3)\<close> the source
  gives \<open>2/3\<close>, whose integer quotient is 0, where the stated formula gives \<open>3/2\<close>,
  whose integer quotient is 1.
\<close>

theorem quote_counterexample:
  "fraction_value (quote (fraction_of_int 1) (fraction_of_int 2) (fraction_of_int 3))
     \<noteq> fraction_value (fraction_of_int 1) * fraction_value (fraction_of_int 3)
         / fraction_value (fraction_of_int 2)
   \<and> fraction_quotient (quote (fraction_of_int 1) (fraction_of_int 2) (fraction_of_int 3))
     = Inr 0"
  by (simp add: quote_def fraction_divide_def fraction_multiply_def fraction_value_def
      fraction_of_int_def fraction_quotient_def truncating_divide_def)

text \<open>
  C1, amended. For fractions with non-zero denominators and a non-zero \<open>reserveB\<close>,
  \<open>quote amountA reserveA reserveB\<close> is \<open>amountA * reserveA / reserveB\<close>: the amount
  times the second argument, divided by the third. Its integer quotient is that
  rational truncated towards zero. (\<open>addCallParameters\<close> passes the reserve of the
  other token second and the reserve of the amount's own token third.)
\<close>

theorem quote_value:
  assumes "denominator amountA \<noteq> 0" and "denominator reserveA \<noteq> 0"
    and "denominator reserveB \<noteq> 0" and "fraction_value reserveB \<noteq> 0"
  shows "fraction_value (quote amountA reserveA reserveB)
       = fraction_value amountA * fraction_value reserveA / fraction_value reserveB
     \<and> fraction_quotient (quote amountA reserveA reserveB)
       = Inr (rat_truncate (fraction_value amountA * fraction_value reserveA / fraction_value reserveB))"
proof -
  have "numerator reserveB \<noteq> 0"
    using assms(4) by (auto simp: fraction_value_def)
  then have "denominator (quote amountA reserveA reserveB) \<noteq> 0"
    using assms(1,2) by (simp add: quote_def fraction_divide_def fraction_multiply_def)
  then show ?thesis
    by (simp add: fraction_quotient_value quote_value_eq)
qed

theorem quote_value_witness:
  "fraction_value (quote (fraction_of_int 7) (fraction_of_int 3) (fraction_of_int 2)) = 21 / 2
   \<and> fraction_quotient (quote (fraction_of_int 7) (fraction_of_int 3) (fraction_of_int 2)) = Inr 10"
proof -
  have v: "fraction_value (fraction_of_int n) = of_int n" for n
    by (simp add: fraction_of_int_def fraction_value_def)
  have t: "rat_truncate (21 / 2) = 10" by (simp add: rat_truncate_def floor_eq_iff)
  have d: "denominator (fraction_of_int n) \<noteq> 0" for n
    by (simp add: fraction_of_int_def)
  have nz: "fraction_value (fraction_of_int 2) \<noteq> 0"
    by (simp add: v)
  from quote_value [OF d d d nz, of 7 3] show ?thesis
    by (simp add: v t)
qed

section \<open>Swap encoding: dispatch and failures\<close>

lemma toHex_defined: "denominator x \<noteq> 0 \<Longrightarrow> \<exists>h. toHex x = Inr h"
  by (simp add: toHex_def fraction_quotient_def truncating_divide_def and_then_def)

lemma useFeeOnTransfer_iff: "useFeeOnTransfer options \<longleftrightarrow> feeOnTransfer options = Some True"
  by (cases "feeOnTransfer options") (auto simp: useFeeOnTransfer_def)

text \<open>
  C4. Whenever \<open>swapCallParameters\<close> returns a result, the method name, the order of
  the arguments and the call value are those of the row of the decision table for the
  trade type, the nativeness of the input and of the output currency and the
  fee-on-transfer request; the arguments are the hex of the maximum input, the hex of
  the minimum output, the addresses along the path, the validated recipient and the
  deadline, placed as the row orders them. The call value is the hex of the maximum
  input when the input currency is native and \<open>0x0\<close> otherwise.
\<close>

theorem swapCallParameters_table:
  assumes "swapCallParameters validateAndParseAddress now trade options = Inr p"
  shows "\<exists>amountIn amountOut to order v.
     toHex (maximumAmountIn trade (allowedSlippage options)) = Inr amountIn
     \<and> toHex (minimumAmountOut trade (allowedSlippage options)) = Inr amountOut
     \<and> validateAndParseAddress (recipient options) = Some to
     \<and> swap_table (tradeType trade) (isNative (currency (inputAmount trade)))
          (isNative (currency (outputAmount trade))) (feeOnTransfer options = Some True)
        = Some (methodName p, order, v)
     \<and> args p = map (fill_slot amountIn amountOut (map address (path trade)) to
                       (deadline_hex now (expiry options))) order
     \<and> callValue p = fill_value amountIn v
     \<and> callValue p = (if isNative (currency (inputAmount trade)) then amountIn else ''0x0'')"
  using assms
  unfolding swapCallParameters_def Let_def and_then_def useFeeOnTransfer_iff ZERO_HEX_def
  by (cases "tradeType trade") (auto split: if_splits option.splits sum.splits)

theorem swapCallParameters_table_witness:
  "swapCallParameters Some 0 (sample_trade EXACT_INPUT True False) (sample_options 1 100)
     = Inr \<lparr>methodName = ''swapExactETHForTokens'',
            args = [Str ''0x7bc'', StrList [''0xA0'', ''0xB1''], Str ''0xC2'', Str ''0xff''],
            callValue = ''0x3f2''\<rparr>
   \<and> (\<exists>order v. swap_table EXACT_INPUT True False False
                    = Some (''swapExactETHForTokens'', order, v))"
proof -
  have run: "swapCallParameters Some 0 (sample_trade EXACT_INPUT True False)
       (sample_options 1 100)
     = Inr \<lparr>methodName = ''swapExactETHForTokens'',
            args = [Str ''0x7bc'', StrList [''0xA0'', ''0xB1''], Str ''0xC2'', Str ''0xff''],
            callValue = ''0x3f2''\<rparr>"
    by code_simp
  have "\<exists>order v. swap_table EXACT_INPUT True False False
                    = Some (''swapExactETHForTokens'', order, v)"
    using swapCallParameters_table [OF run]
    by (simp add: sample_trade_def sample_options_def native_amount_def token_amount_def)
  with run show ?thesis by blast
qed

text \<open>
  C5. For a trade whose two slippage-adjusted amounts are currency amounts (their
  denominators are not zero), \<open>swapCallParameters\<close> fails exactly when the input and
  the output currency are both native, or a \<open>ttl\<close> is given and is at most 0, or
  fee-on-transfer is requested for an exact-output trade, or the recipient does not
  pass the address validation. In every other case it returns a result.
\<close>

theorem swapCallParameters_fails_iff:
  assumes "denominator (maximumAmountIn trade (allowedSlippage options)) \<noteq> 0"
    and "denominator (minimumAmountOut trade (allowedSlippage options)) \<noteq> 0"
  shows "isl (swapCallParameters validateAndParseAddress now trade options) \<longleftrightarrow>
     (isNative (currency (inputAmount trade)) \<and> isNative (currency (outputAmount trade)))
     \<or> (\<exists>t. expiry options = Ttl t \<and> t \<le> 0)
     \<or> (feeOnTransfer options = Some True \<and> tradeType trade = EXACT_OUTPUT)
     \<or> validateAndParseAddress (recipient options) = None"
proof -
  obtain hi where hi: "toHex (maximumAmountIn trade (allowedSlippage options)) = Inr hi"
    using toHex_defined [OF assms(1)] by blast
  obtain ho where ho: "toHex (minimumAmountOut trade (allowedSlippage options)) = Inr ho"
    using toHex_defined [OF assms(2)] by blast
  have ttl: "\<not> ttl_invariant (expiry options) \<longleftrightarrow> (\<exists>t. expiry options = Ttl t \<and> t \<le> 0)"
    by (cases "expiry options") (auto simp: ttl_invariant_def)
  show ?thesis
    unfolding swapCallParameters_def Let_def and_then_def hi ho ttl useFeeOnTransfer_iff
    by (cases "tradeType trade"; cases "validateAndParseAddress (recipient options)") auto
qed

theorem swapCallParameters_fails_iff_witness:
  "denominator (maximumAmountIn (sample_trade EXACT_OUTPUT False False)
       (allowedSlippage ((sample_options 1 100)\<lparr>feeOnTransfer := Some True\<rparr>))) \<noteq> 0
   \<and> denominator (minimumAmountOut (sample_trade EXACT_OUTPUT False False)
       (allowedSlippage ((sample_options 1 100)\<lparr>feeOnTransfer := Some True\<rparr>))) \<noteq> 0
   \<and> isl (swapCallParameters Some 0 (sample_trade EXACT_OUTPUT False False)
            ((sample_options 1 100)\<lparr>feeOnTransfer := Some True\<rparr>))
   \<and> \<not> isl (swapCallParameters Some 0 (sample_trade EXACT_OUTPUT False False)
            (sample_options 1 100))"
proof -
  have d: "denominator (maximumAmountIn (sample_trade EXACT_OUTPUT False False) s) \<noteq> 0"
    "denominator (minimumAmountOut (sample_trade EXACT_OUTPUT False False) s) \<noteq> 0" for s
    by (simp_all add: sample_trade_def token_amount_def)
  have "isl (swapCallParameters Some 0 (sample_trade EXACT_OUTPUT False False)
            ((sample_options 1 100)\<lparr>feeOnTransfer := Some True\<rparr>))"
    using swapCallParameters_fails_iff [where trade = "sample_trade EXACT_OUTPUT False False"
        and options = "(sample_options 1 100)\<lparr>feeOnTransfer := Some True\<rparr>"
        and validateAndParseAddress = Some and now = 0, OF d]
    by (simp add: sample_trade_def)
  moreover have "\<not> isl (swapCallParameters Some 0 (sample_trade EXACT_OUTPUT False False)
            (sample_options 1 100))"
    using swapCallParameters_fails_iff [where trade = "sample_trade EXACT_OUTPUT False False"
        and options = "sample_options 1 100"
        and validateAndParseAddress = Some and now = 0, OF d]
    by (simp add: sample_trade_def sample_options_def token_amount_def)
  ultimately show ?thesis using d by blast
qed

section \<open>Remove-liquidity encoding: the call value\<close>

text \<open>
  C10. Whenever \<open>removeCallParameters\<close> returns a result, its call value is \<open>0x0\<close>,
  also when one of the two currencies is native and \<open>removeLiquidityETH\<close> is selected.
\<close>

theorem removeCallParameters_value_zero:
  "removeCallParameters validateAndParseAddress now pair tokenA tokenB totalSupply balance
     decreasePercent options = Inr p \<Longrightarrow> callValue p = ''0x0''"
  unfolding removeCallParameters_def Let_def and_then_def remove_liquidity_call_def ZERO_HEX_def
  by (auto split: if_splits option.splits sum.splits)

theorem removeCallParameters_value_zero_witness:
  "removeCallParameters Some 0 (sample_pair 10 20) \<lparr>isNative = True\<rparr> \<lparr>isNative = False\<rparr>
       500 500 100 (sample_options 1 2)
     = Inr \<lparr>methodName = ''removeLiquidityETH'',
            args = [Str ''0xB1'', Str ''500'', Str ''13'', Str ''6'', Str ''0xC2'', Str ''0xff''],
            callValue = ''0x0''\<rparr>
   \<and> callValue \<lparr>methodName = ''removeLiquidityETH'',
            args = [Str ''0xB1'', Str ''500'', Str ''13'', Str ''6'', Str ''0xC2'', Str ''0xff''],
            callValue = ''0x0''\<rparr> = ''0x0''"
proof -
  have run: "removeCallParameters Some 0 (sample_pair 10 20) \<lparr>isNative = True\<rparr>
       \<lparr>isNative = False\<rparr> 500 500 100 (sample_options 1 2)
     = Inr \<lparr>methodName = ''removeLiquidityETH'',
            args = [Str ''0xB1'', Str ''500'', Str ''13'', Str ''6'', Str ''0xC2'', Str ''0xff''],
            callValue = ''0x0''\<rparr>"
    by code_simp
  from run removeCallParameters_value_zero [OF run] show ?thesis by blast
qed

section \<open>Add-liquidity encoding: the minimum amounts\<close>

lemma biased_minimum_positive:
  assumes "0 \<le> numerator (allowedSlippage options)"
    and "0 < denominator (allowedSlippage options)"
    and "0 \<le> desired"
  shows "biased_minimum (slippageAdjusted options) desired
     = Inr ((denominator (allowedSlippage options) * desired)
              div (denominator (allowedSlippage options) + numerator (allowedSlippage options)) + 1)"
proof -
  define n where "n = numerator (allowedSlippage options)"
  define d where "d = denominator (allowedSlippage options)"
  have pos: "0 < d + n" "0 \<le> d * desired" "0 < d"
    using assms by (simp_all add: n_def d_def)
  have "biased_minimum (slippageAdjusted options) desired
      = truncating_divide (d * desired + (d + n)) (d + n)"
    by (simp add: biased_minimum_def slippageAdjusted_def fraction_quotient_def
        fraction_add_def fraction_multiply_def fraction_invert_def fraction_of_int_def
        n_def d_def)
  also have "\<dots> = Inr ((d * desired + (d + n)) div (d + n))"
    using pos by (simp add: truncating_divide_def abs_of_nonneg)
  also have "(d * desired + (d + n)) div (d + n) = (d * desired) div (d + n) + 1"
    using pos by simp
  finally show ?thesis by (simp add: n_def d_def)
qed

lemma slippageAdjusted_value:
  assumes "denominator (allowedSlippage options) \<noteq> 0"
  shows "fraction_value (slippageAdjusted options)
     = 1 / (1 + fraction_value (allowedSlippage options))"
  using assms
  by (simp add: slippageAdjusted_def fraction_value_def fraction_add_def fraction_invert_def
      fraction_of_int_def field_simps)

lemma biased_minimum_Inr:
  assumes "biased_minimum adjusted desired = Inr m"
  shows "m = rat_truncate (fraction_value adjusted * of_int desired + 1)"
proof -
  let ?f = "fraction_add (fraction_multiply adjusted (fraction_of_int desired)) (fraction_of_int 1)"
  from assms have q: "fraction_quotient ?f = Inr m"
    by (simp add: biased_minimum_def)
  from fraction_quotient_Inr [OF q] have d: "denominator ?f \<noteq> 0"
    and m: "m = rat_truncate (fraction_value ?f)" by simp_all
  from d have "denominator (fraction_multiply adjusted (fraction_of_int desired)) \<noteq> 0"
    by (simp add: fraction_add_def fraction_of_int_def)
  moreover have "denominator (fraction_of_int 1) \<noteq> 0"
    by (simp add: fraction_of_int_def)
  ultimately have "fraction_value ?f
      = fraction_value (fraction_multiply adjusted (fraction_of_int desired))
        + fraction_value (fraction_of_int 1)"
    by (rule fraction_value_add)
  then have "fraction_value ?f = fraction_value adjusted * of_int desired + 1"
    by (simp add: fraction_value_multiply fraction_value_of_int)
  with m show ?thesis by simp
qed

text \<open>
  C7, as the specification states it, fails: with zero slippage and a desired amount
  of 1000 the minimum is 1001, above the desired amount.
\<close>

theorem biased_minimum_counterexample:
  "biased_minimum (slippageAdjusted (sample_options 0 1)) 1000 = Inr 1001
   \<and> \<not> (1001 :: int) < 1000"
  by code_simp

text \<open>
  C7, amended. For a slippage tolerance \<open>n/d\<close> with \<open>0 \<le> n\<close> and \<open>0 < d\<close> and a
  positive desired amount, the initial minimum is
  \<open>\<lfloor>slippageAdjusted * desired\<rfloor> + 1\<close>. It is at most \<open>desired + 1\<close>; it is at most
  the desired amount when the tolerance is positive; and it is strictly below the
  desired amount exactly when \<open>n + d < desired * n\<close>, that is, when
  \<open>1 + allowedSlippage < desired * allowedSlippage\<close>. At zero tolerance it is
  \<open>desired + 1\<close>.
\<close>

theorem biased_minimum_bound:
  assumes "0 \<le> numerator (allowedSlippage options)"
    and "0 < denominator (allowedSlippage options)"
    and "0 < desired"
  shows "\<exists>m. biased_minimum (slippageAdjusted options) desired = Inr m
     \<and> m = \<lfloor>fraction_value (slippageAdjusted options) * of_int desired\<rfloor> + 1
     \<and> m \<le> desired + 1
     \<and> (0 < numerator (allowedSlippage options) \<longrightarrow> m \<le> desired)
     \<and> (m < desired \<longleftrightarrow>
          numerator (allowedSlippage options) + denominator (allowedSlippage options)
            < desired * numerator (allowedSlippage options))
     \<and> (numerator (allowedSlippage options) = 0 \<longrightarrow> m = desired + 1)"
proof -
  define n where "n = numerator (allowedSlippage options)"
  define d where "d = denominator (allowedSlippage options)"
  define m where "m = (d * desired) div (d + n) + 1"
  have pos: "0 < d + n" "0 \<le> n" "0 < d"
    using assms by (simp_all add: n_def d_def)
  have run: "biased_minimum (slippageAdjusted options) desired = Inr m"
    using biased_minimum_positive [of options desired] assms
    by (simp add: m_def n_def d_def)
  have "fraction_value (slippageAdjusted options) * of_int desired
      = of_int (d * desired) / of_int (d + n)"
    by (simp add: slippageAdjusted_def fraction_value_def fraction_add_def fraction_invert_def
        fraction_of_int_def n_def d_def)
  then have fl: "m = \<lfloor>fraction_value (slippageAdjusted options) * of_int desired\<rfloor> + 1"
    by (simp only: m_def floor_divide_of_int_eq)
  have lt: "m - 1 < c \<longleftrightarrow> d * desired < c * (d + n)" for c
    using int_div_less_iff [OF pos(1), of "d * desired" c] by (simp add: m_def)
  have "d * desired < (desired + 1) * (d + n)"
    using pos assms(3) by (simp add: algebra_simps add_pos_nonneg)
  then have b1: "m \<le> desired + 1"
    using lt [of "desired + 1"] by simp
  have b2: "m \<le> desired" if "0 < n"
  proof -
    have "d * desired < desired * (d + n)"
      using that assms(3) by (simp add: algebra_simps)
    then show ?thesis using lt [of desired] by simp
  qed
  have "m < desired \<longleftrightarrow> d * desired < (desired - 1) * (d + n)"
    using lt [of "desired - 1"] by simp
  also have "\<dots> \<longleftrightarrow> n + d < desired * n"
    by (simp add: algebra_simps)
  finally have b3: "m < desired \<longleftrightarrow> n + d < desired * n" .
  have b4: "m = desired + 1" if "n = 0"
    using that pos(3) by (simp add: m_def)
  from run fl b1 b2 b3 b4 show ?thesis
    unfolding n_def d_def by blast
qed

theorem biased_minimum_bound_witness:
  "0 \<le> numerator (allowedSlippage (sample_options 1 100))
   \<and> 0 < denominator (allowedSlippage (sample_options 1 100))
   \<and> (0::int) < 1000
   \<and> biased_minimum (slippageAdjusted (sample_options 1 100)) 1000 = Inr 991
   \<and> (991::int) < 1000"
proof -
  have h: "0 \<le> numerator (allowedSlippage (sample_options 1 100))"
    "0 < denominator (allowedSlippage (sample_options 1 100))" "(0::int) < 1000"
    by (simp_all add: sample_options_def)
  from biased_minimum_bound [OF h] obtain m
    where m: "biased_minimum (slippageAdjusted (sample_options 1 100)) 1000 = Inr m"
      and lt: "m < 1000 \<longleftrightarrow>
          numerator (allowedSlippage (sample_options 1 100))
            + denominator (allowedSlippage (sample_options 1 100))
          < 1000 * numerator (allowedSlippage (sample_options 1 100))"
    by blast
  have run: "biased_minimum (slippageAdjusted (sample_options 1 100)) 1000 = Inr 991"
    by code_simp
  from m run have "m = 991" by simp
  with lt run h show ?thesis by (simp add: sample_options_def)
qed

section \<open>Add-liquidity encoding: the uninitialized pool\<close>

lemma reconcile_uninitialized:
  assumes "fraction_equalTo (reserve0 pair) (fraction_of_int 0)"
    and "fraction_equalTo (reserve1 pair) (fraction_of_int 0)"
  shows "reconcile adjusted pair amount0 amount1 s = Inr s"
  using assms by (simp add: reconcile_def)

text \<open>
  C6. When both reserves equal zero and \<open>addCallParameters\<close> returns a result, the
  result carries the integer quotients of the two given amounts as the desired
  amounts, and as minimums the truncation of \<open>slippageAdjusted * desired + 1\<close>, where
  \<open>slippageAdjusted\<close> is \<open>1 / (1 + allowedSlippage)\<close>. With zero slippage and the
  amounts 1000 and 2000 the minimums are 1001 and 2001.
\<close>

theorem addCallParameters_uninitialized:
  assumes "fraction_equalTo (reserve0 pair) (fraction_of_int 0)"
    and "fraction_equalTo (reserve1 pair) (fraction_of_int 0)"
    and "denominator (allowedSlippage options) \<noteq> 0"
    and "addCallParameters validateAndParseAddress now pair amount0 amount1 options = Inr p"
  shows "\<exists>to a b aMin bMin.
       validateAndParseAddress (recipient options) = Some to
     \<and> fraction_quotient amount0 = Inr a
     \<and> fraction_quotient amount1 = Inr b
     \<and> fraction_value (slippageAdjusted options)
         = 1 / (1 + fraction_value (allowedSlippage options))
     \<and> aMin = rat_truncate (fraction_value (slippageAdjusted options) * of_int a + 1)
     \<and> bMin = rat_truncate (fraction_value (slippageAdjusted options) * of_int b + 1)
     \<and> p = add_liquidity_call (isNative (currency amount0)) (isNative (currency amount1))
             pair to (deadline_hex now (expiry options))
             \<lparr>amountADesired = a, amountBDesired = b, amountAMin = aMin, amountBMin = bMin\<rparr>"
proof -
  from assms(4) obtain to s0
    where to: "validateAndParseAddress (recipient options) = Some to"
      and s0: "initial_amounts (slippageAdjusted options) amount0 amount1 = Inr s0"
      and p: "p = add_liquidity_call (isNative (currency amount0)) (isNative (currency amount1))
                pair to (deadline_hex now (expiry options)) s0"
    unfolding addCallParameters_def Let_def and_then_def
      reconcile_uninitialized [OF assms(1,2)]
    by (auto split: if_splits option.splits sum.splits)
  from s0 obtain a b aMin bMin
    where a: "fraction_quotient amount0 = Inr a"
      and b: "fraction_quotient amount1 = Inr b"
      and aMin: "biased_minimum (slippageAdjusted options) a = Inr aMin"
      and bMin: "biased_minimum (slippageAdjusted options) b = Inr bMin"
      and s: "s0 = \<lparr>amountADesired = a, amountBDesired = b, amountAMin = aMin, amountBMin = bMin\<rparr>"
    unfolding initial_amounts_def and_then_def
    by (auto split: sum.splits)
  from to a b slippageAdjusted_value [OF assms(3)]
    biased_minimum_Inr [OF aMin] biased_minimum_Inr [OF bMin] p s
  show ?thesis by blast
qed

theorem addCallParameters_uninitialized_witness:
  "fraction_equalTo (reserve0 (sample_pair 0 0)) (fraction_of_int 0)
   \<and> fraction_equalTo (reserve1 (sample_pair 0 0)) (fraction_of_int 0)
   \<and> denominator (allowedSlippage (sample_options 0 1)) \<noteq> 0
   \<and> addCallParameters Some 0 (sample_pair 0 0) (token_amount 1000) (token_amount 2000)
        (sample_options 0 1)
      = Inr \<lparr>methodName = ''addLiquidity'',
             args = [Str ''0xA0'', Str ''0xB1'', Str ''1000'', Str ''2000'', Str ''1001'',
                     Str ''2001'', Str ''0xC2'', Str ''0xff''],
             callValue = ''0x0''\<rparr>
   \<and> (\<exists>aMin bMin.
        \<lparr>methodName = ''addLiquidity'',
         args = [Str ''0xA0'', Str ''0xB1'', Str ''1000'', Str ''2000'', Str ''1001'',
                 Str ''2001'', Str ''0xC2'', Str ''0xff''],
         callValue = ''0x0''\<rparr>
        = add_liquidity_call False False (sample_pair 0 0) ''0xC2'' ''0xff''
            \<lparr>amountADesired = 1000, amountBDesired = 2000,
             amountAMin = aMin, amountBMin = bMin\<rparr>)"
proof -
  have h: "fraction_equalTo (reserve0 (sample_pair 0 0)) (fraction_of_int 0)"
    "fraction_equalTo (reserve1 (sample_pair 0 0)) (fraction_of_int 0)"
    "denominator (allowedSlippage (sample_options 0 1)) \<noteq> 0"
    by (simp_all add: sample_pair_def sample_options_def token_amount_def fraction_equalTo_def
        fraction_of_int_def)
  have run: "addCallParameters Some 0 (sample_pair 0 0) (token_amount 1000) (token_amount 2000)
        (sample_options 0 1)
      = Inr \<lparr>methodName = ''addLiquidity'',
             args = [Str ''0xA0'', Str ''0xB1'', Str ''1000'', Str ''2000'', Str ''1001'',
                     Str ''2001'', Str ''0xC2'', Str ''0xff''],
             callValue = ''0x0''\<rparr>"
    by code_simp
  have q: "fraction_quotient (token_amount 1000) = Inr 1000"
    "fraction_quotient (token_amount 2000) = Inr 2000"
    "deadline_hex 0 (expiry (sample_options 0 1)) = ''0xff''"
    "recipient (sample_options 0 1) = ''0xC2''"
    "isNative (currency (token_amount 1000)) = False"
    "isNative (currency (token_amount 2000)) = False"
    by code_simp+
  from addCallParameters_uninitialized [OF h run] h run show ?thesis
    unfolding q by auto
qed

section \<open>Add-liquidity encoding: how the amounts are rendered\<close>

text \<open>
  C2. The amounts that \<open>addCallParameters\<close> puts into the arguments and the call
  value are decimal strings, not \<open>0x\<close>-prefixed hexadecimal ones: for a native amount
  of 255 the call value is \<open>255\<close>, where \<open>toHex\<close> gives \<open>0xff\<close>.
\<close>

theorem addCallParameters_decimal_strings:
  "addCallParameters Some 0 (sample_pair 0 0) (native_amount 255) (token_amount 4096)
       (sample_options 0 1)
     = Inr \<lparr>methodName = ''addLiquidityETH'',
            args = [Str ''0xB1'', Str ''4096'', Str ''4097'', Str ''256'', Str ''0xC2'',
                    Str ''0xff''],
            callValue = ''255''\<rparr>
   \<and> toHex (native_amount 255) = Inr ''0xff''
   \<and> toHex (token_amount 4096) = Inr ''0x1000''"
  by code_simp

section \<open>The conversion to a double: bounds, exactness, monotonicity\<close>

lemma bit_length_nonpos: "n \<le> 0 \<Longrightarrow> bit_length n = 0"
  by (simp add: bit_length.simps)

lemma bit_length_pos: "0 < n \<Longrightarrow> bit_length n = Suc (bit_length (n div 2))"
  by (subst bit_length.simps) simp

lemma bit_length_bounds:
  "0 < n \<Longrightarrow> 2 ^ (bit_length n - 1) \<le> n \<and> n < 2 ^ bit_length n"
proof (induction n rule: bit_length.induct)
  case (1 n)
  show ?case
  proof (cases "n div 2 \<le> 0")
    case True
    with "1.prems" have "n = 1" by linarith
    then show ?thesis by (simp add: bit_length_pos bit_length_nonpos)
  next
    case False
    then have pos: "0 < n div 2" by simp
    from "1.IH" [OF _ pos] "1.prems"
    have ih: "2 ^ (bit_length (n div 2) - 1) \<le> n div 2" "n div 2 < 2 ^ bit_length (n div 2)"
      by simp_all
    have bl: "bit_length n = Suc (bit_length (n div 2))"
      using "1.prems" by (rule bit_length_pos)
    have "0 < bit_length (n div 2)"
      using pos by (simp add: bit_length_pos)
    then obtain k where k: "bit_length (n div 2) = Suc k"
      by (cases "bit_length (n div 2)") simp_all
    from ih(1) have "2 * 2 ^ k \<le> n" unfolding k by (simp; linarith?)
    moreover from ih(2) have "n < 2 * 2 ^ Suc k" unfolding k by (simp; linarith?)
    ultimately show ?thesis unfolding bl k by simp
  qed
qed


lemma round_to_53_bits_small: "bit_length n \<le> 53 \<Longrightarrow> round_to_53_bits n = n"
  by (simp add: round_to_53_bits_def Let_def)





lemma round_to_53_bits_zero: "round_to_53_bits 0 = 0"
  by (simp add: round_to_53_bits_def bit_length_nonpos)



lemma number_less_eq_simps:
  "number_less_eq (Finite a) (Finite b) \<longleftrightarrow> a \<le> b"
  "number_less_eq NegInfinity x"
  "number_less_eq x PosInfinity"
  by (cases x; auto simp: number_less_eq_def)+


text \<open>Up to 53 bits the conversion keeps the integer, and so do the comparisons.\<close>

lemma round_to_53_bits_exact:
  assumes "0 \<le> n" and "n < 2 ^ 53"
  shows "round_to_53_bits n = n"
proof (cases "n = 0")
  case True
  then show ?thesis by (simp add: round_to_53_bits_zero)
next
  case False
  with assms have n: "0 < n" by simp
  have "bit_length n \<le> 53"
  proof (rule ccontr)
    assume "\<not> bit_length n \<le> 53"
    then have "53 \<le> bit_length n - 1" by simp
    then have "(2::int) ^ 53 \<le> 2 ^ (bit_length n - 1)"
      by (intro power_increasing) simp_all
    with bit_length_bounds [OF n] assms(2) show False by linarith
  qed
  then show ?thesis by (rule round_to_53_bits_small)
qed

lemma Number_exact:
  assumes "\<bar>n\<bar> < 2 ^ 53"
  shows "Number n = Finite n"
proof -
  have r: "round_to_53_bits \<bar>n\<bar> = \<bar>n\<bar>"
    using assms by (intro round_to_53_bits_exact) simp_all
  have "\<bar>n\<bar> < 2 ^ 1024"
    using assms by (rule less_trans) simp
  then show ?thesis
    by (simp add: Number_def r Let_def mult_sgn_abs)
qed

lemma number_less_exact:
  assumes "\<bar>a\<bar> < 2 ^ 53" and "\<bar>b\<bar> < 2 ^ 53"
  shows "number_less (Number a) (Number b) \<longleftrightarrow> a < b"
    and "number_less_eq (Number a) (Number b) \<longleftrightarrow> a \<le> b"
  by (simp_all add: Number_exact [OF assms(1)] Number_exact [OF assms(2)] number_less_eq_simps)



section \<open>Add-liquidity encoding: the comparisons\<close>

text \<open>
  While every amount the reconciliation compares is below \<open>2^53\<close> in absolute value,
  the source's comparisons are the comparisons of the integers.
\<close>

lemma reconcile_exact_on_safe_integers:
  assumes "\<bar>amountADesired s\<bar> < 2 ^ 53" and "\<bar>amountBDesired s\<bar> < 2 ^ 53"
    and "\<bar>amountAMin s\<bar> < 2 ^ 53" and "\<bar>amountBMin s\<bar> < 2 ^ 53"
    and "\<And>q. fraction_quotient (quote amount0 (reserve1 pair) (reserve0 pair)) = Inr q
            \<Longrightarrow> \<bar>q\<bar> < 2 ^ 53"
    and "\<And>q. fraction_quotient (quote amount1 (reserve0 pair) (reserve1 pair)) = Inr q
            \<Longrightarrow> \<bar>q\<bar> < 2 ^ 53"
  shows "reconcile adjusted pair amount0 amount1 s
       = reconcile_exact adjusted pair amount0 amount1 s"
proof (cases "fraction_quotient (quote amount0 (reserve1 pair) (reserve0 pair))")
  case (Inl e)
  then show ?thesis by (simp add: reconcile_def reconcile_exact_def and_then_def)
next
  case b: (Inr optB)
  note B = assms(5) [OF b]
  show ?thesis
  proof (cases "fraction_quotient (quote amount1 (reserve0 pair) (reserve1 pair))")
    case (Inl e)
    then show ?thesis
      using b by (simp add: reconcile_def reconcile_exact_def and_then_def
          number_less_exact [OF B assms(2)] number_less_exact [OF B assms(4)])
  next
    case a: (Inr optA)
    note A = assms(6) [OF a]
    show ?thesis
      using a b by (simp add: reconcile_def reconcile_exact_def and_then_def
          number_less_exact [OF B assms(2)] number_less_exact [OF B assms(4)]
          number_less_exact [OF A assms(1)] number_less_exact [OF A assms(3)])
  qed
qed

text \<open>
  C3. The reconciliation compares the amounts as doubles. With equal reserves, the
  amounts \<open>2^53 + 1\<close> and \<open>2^53\<close> and zero slippage, the optimal B amount \<open>2^53 + 1\<close>
  exceeds the desired \<open>2^53\<close>, yet both convert to the same double, so the source
  takes the B branch and leaves the amounts as they are; comparing the integers
  takes the A branch and lowers the desired A amount to \<open>2^53\<close>.
\<close>

theorem reconcile_double_comparison:
  "reconcile (slippageAdjusted (sample_options 0 1)) (sample_pair 1 1)
       (token_amount 9007199254740993) (token_amount 9007199254740992)
       \<lparr>amountADesired = 9007199254740993, amountBDesired = 9007199254740992,
        amountAMin = 9007199254740994, amountBMin = 9007199254740993\<rparr>
     = Inr \<lparr>amountADesired = 9007199254740993, amountBDesired = 9007199254740992,
            amountAMin = 9007199254740994, amountBMin = 9007199254740993\<rparr>
   \<and> reconcile_exact (slippageAdjusted (sample_options 0 1)) (sample_pair 1 1)
       (token_amount 9007199254740993) (token_amount 9007199254740992)
       \<lparr>amountADesired = 9007199254740993, amountBDesired = 9007199254740992,
        amountAMin = 9007199254740994, amountBMin = 9007199254740993\<rparr>
     = Inr \<lparr>amountADesired = 9007199254740992, amountBDesired = 9007199254740992,
            amountAMin = 9007199254740993, amountBMin = 9007199254740993\<rparr>
   \<and> number_less_eq (Number 9007199254740993) (Number 9007199254740992)
   \<and> \<not> (9007199254740993 :: int) \<le> 9007199254740992
   \<and> addCallParameters Some 0 (sample_pair 1 1) (token_amount 9007199254740993)
       (token_amount 9007199254740992) (sample_options 0 1)
     = Inr \<lparr>methodName = ''addLiquidity'',
            args = [Str ''0xA0'', Str ''0xB1'', Str ''9007199254740993'',
                    Str ''9007199254740992'', Str ''9007199254740994'',
                    Str ''9007199254740993'', Str ''0xC2'', Str ''0xff''],
            callValue = ''0x0''\<rparr>"
  by code_simp








section \<open>Remove-liquidity encoding: the amounts\<close>

lemma liquidity_value:
  "fraction_value (liquidity balance decreasePercent)
     = of_int balance * of_int decreasePercent / 100"
  by (simp add: liquidity_def fraction_value_divide fraction_value_multiply fraction_value_of_int)

lemma removePercent_value:
  "fraction_value (removePercent totalSupply balance decreasePercent)
     = fraction_value (liquidity balance decreasePercent) / of_int totalSupply"
  by (simp add: removePercent_def fraction_value_divide fraction_value_of_int)

lemma slippageAdjusted_positive:
  assumes "0 \<le> numerator (allowedSlippage options)"
    and "0 < denominator (allowedSlippage options)"
  shows "0 < numerator (slippageAdjusted options)" "0 < denominator (slippageAdjusted options)"
  using assms
  by (simp_all add: slippageAdjusted_def fraction_add_def fraction_invert_def fraction_of_int_def)

lemma removed_amount_floor:
  assumes "0 \<le> balance" and "0 \<le> decreasePercent" and "0 < totalSupply"
    and "0 \<le> numerator reserve" and "0 < denominator reserve"
    and "0 \<le> numerator (allowedSlippage options)"
    and "0 < denominator (allowedSlippage options)"
  shows "fraction_quotient
           (fraction_multiply
              (fraction_multiply reserve (removePercent totalSupply balance decreasePercent))
              (slippageAdjusted options))
       = Inr \<lfloor>fraction_value reserve
               * fraction_value (removePercent totalSupply balance decreasePercent)
               * fraction_value (slippageAdjusted options)\<rfloor>"
proof -
  let ?rp = "removePercent totalSupply balance decreasePercent"
  let ?x = "fraction_multiply (fraction_multiply reserve ?rp) (slippageAdjusted options)"
  have rp: "0 \<le> numerator ?rp" "0 < denominator ?rp"
    using assms(1-3)
    by (simp_all add: removePercent_def liquidity_def fraction_divide_def
        fraction_multiply_def fraction_of_int_def)
  note sa = slippageAdjusted_positive [OF assms(6,7)]
  have d: "0 < denominator ?x"
    using rp(2) sa(2) assms(5) by (simp add: fraction_multiply_def)
  have n: "0 \<le> numerator ?x"
    using rp(1) sa(1) assms(4) by (simp add: fraction_multiply_def)
  have "fraction_quotient ?x = Inr \<lfloor>fraction_value ?x\<rfloor>"
    using d fraction_value_nonneg [OF n d] by (intro fraction_quotient_floor) simp_all
  then show ?thesis by (simp add: fraction_value_multiply)
qed

lemma liquidity_floor:
  assumes "0 \<le> balance" and "0 \<le> decreasePercent"
  shows "fraction_quotient (liquidity balance decreasePercent)
       = Inr \<lfloor>fraction_value (liquidity balance decreasePercent)\<rfloor>"
proof -
  have "denominator (liquidity balance decreasePercent) \<noteq> 0"
    by (simp add: liquidity_def fraction_divide_def fraction_multiply_def fraction_of_int_def)
  moreover have "0 \<le> fraction_value (liquidity balance decreasePercent)"
    using assms by (simp add: liquidity_value)
  ultimately show ?thesis by (rule fraction_quotient_floor)
qed

text \<open>
  C8. For non-negative balance, percentage, reserves and slippage and a positive
  total supply, \<open>liquidity\<close> is \<open>balance * decreasePercent / 100\<close> and \<open>removePercent\<close>
  is \<open>liquidity / totalSupply\<close> as rationals, and \<open>removeCallParameters\<close> returns the
  call with \<open>\<lfloor>liquidity\<rfloor>\<close> and the two minimums
  \<open>\<lfloor>reserve * removePercent * slippageAdjusted\<rfloor>\<close>, nothing added. When
  \<open>decreasePercent\<close> is 100 and the balance is the total supply, \<open>liquidity\<close> is the
  balance, \<open>removePercent\<close> is 1, and the product under the floor is
  \<open>reserve * slippageAdjusted\<close>.
\<close>

theorem removeCallParameters_amounts:
  assumes "\<not> (isNative tokenA \<and> isNative tokenB)"
    and "ttl_invariant (expiry options)"
    and "validateAndParseAddress (recipient options) = Some to"
    and "0 \<le> balance" and "0 \<le> decreasePercent" and "0 < totalSupply"
    and "0 \<le> numerator (reserve0 pair)" and "0 < denominator (reserve0 pair)"
    and "0 \<le> numerator (reserve1 pair)" and "0 < denominator (reserve1 pair)"
    and "0 \<le> numerator (allowedSlippage options)"
    and "0 < denominator (allowedSlippage options)"
  shows "fraction_value (liquidity balance decreasePercent)
         = of_int balance * of_int decreasePercent / 100
     \<and> fraction_value (removePercent totalSupply balance decreasePercent)
         = fraction_value (liquidity balance decreasePercent) / of_int totalSupply
     \<and> removeCallParameters validateAndParseAddress now pair tokenA tokenB totalSupply balance
           decreasePercent options
         = Inr (remove_liquidity_call (isNative tokenA) (isNative tokenB) pair to
                  (deadline_hex now (expiry options))
                  \<lfloor>fraction_value (liquidity balance decreasePercent)\<rfloor>
                  \<lfloor>fraction_value (reserve0 pair)
                     * fraction_value (removePercent totalSupply balance decreasePercent)
                     * fraction_value (slippageAdjusted options)\<rfloor>
                  \<lfloor>fraction_value (reserve1 pair)
                     * fraction_value (removePercent totalSupply balance decreasePercent)
                     * fraction_value (slippageAdjusted options)\<rfloor>)
     \<and> (decreasePercent = 100 \<and> balance = totalSupply \<longrightarrow>
          fraction_value (liquidity balance decreasePercent) = of_int balance
        \<and> fraction_value (removePercent totalSupply balance decreasePercent) = 1
        \<and> fraction_value (reserve0 pair)
             * fraction_value (removePercent totalSupply balance decreasePercent)
             * fraction_value (slippageAdjusted options)
           = fraction_value (reserve0 pair) * fraction_value (slippageAdjusted options)
        \<and> fraction_value (reserve1 pair)
             * fraction_value (removePercent totalSupply balance decreasePercent)
             * fraction_value (slippageAdjusted options)
           = fraction_value (reserve1 pair) * fraction_value (slippageAdjusted options))"
proof -
  note a = removed_amount_floor [OF assms(4-6) assms(7,8) assms(11,12)]
  note b = removed_amount_floor [OF assms(4-6) assms(9,10) assms(11,12)]
  note l = liquidity_floor [OF assms(4,5)]
  have run: "removeCallParameters validateAndParseAddress now pair tokenA tokenB totalSupply
           balance decreasePercent options
         = Inr (remove_liquidity_call (isNative tokenA) (isNative tokenB) pair to
                  (deadline_hex now (expiry options))
                  \<lfloor>fraction_value (liquidity balance decreasePercent)\<rfloor>
                  \<lfloor>fraction_value (reserve0 pair)
                     * fraction_value (removePercent totalSupply balance decreasePercent)
                     * fraction_value (slippageAdjusted options)\<rfloor>
                  \<lfloor>fraction_value (reserve1 pair)
                     * fraction_value (removePercent totalSupply balance decreasePercent)
                     * fraction_value (slippageAdjusted options)\<rfloor>)"
    using assms(1-3) by (auto simp: removeCallParameters_def Let_def and_then_def a b l)
  have full: "fraction_value (liquidity balance decreasePercent) = of_int balance
        \<and> fraction_value (removePercent totalSupply balance decreasePercent) = 1"
    if "decreasePercent = 100" "balance = totalSupply"
    using that assms(6) by (simp add: removePercent_value liquidity_value)
  show ?thesis
    using run full by (simp add: liquidity_value removePercent_value)
qed

theorem removeCallParameters_amounts_witness:
  "removeCallParameters Some 0 (sample_pair 10 20) \<lparr>isNative = True\<rparr> \<lparr>isNative = False\<rparr>
       500 500 100 (sample_options 1 2)
     = Inr (remove_liquidity_call True False (sample_pair 10 20) ''0xC2''
              (deadline_hex 0 (Deadline 255))
              \<lfloor>fraction_value (liquidity 500 100)\<rfloor>
              \<lfloor>fraction_value (reserve0 (sample_pair 10 20))
                 * fraction_value (removePercent 500 500 100)
                 * fraction_value (slippageAdjusted (sample_options 1 2))\<rfloor>
              \<lfloor>fraction_value (reserve1 (sample_pair 10 20))
                 * fraction_value (removePercent 500 500 100)
                 * fraction_value (slippageAdjusted (sample_options 1 2))\<rfloor>)
   \<and> fraction_value (liquidity 500 100) = 500
   \<and> fraction_value (removePercent 500 500 100) = 1"
  using removeCallParameters_amounts [where pair = "sample_pair 10 20"
      and tokenA = "\<lparr>isNative = True\<rparr>" and tokenB = "\<lparr>isNative = False\<rparr>"
      and totalSupply = 500 and balance = 500 and decreasePercent = 100
      and options = "sample_options 1 2" and validateAndParseAddress = Some
      and to = "''0xC2''" and now = 0]
  by (simp add: sample_pair_def sample_options_def token_amount_def ttl_invariant_def)

end
